theory Spec2Isabelle
  imports Main
begin

section \<open>Supervisor add-on ingress: the data the proxy handles\<close>

text \<open>
  The development embeds \<^verbatim>\<open>supervisor/api/ingress.py\<close>. Python \<^verbatim>\<open>str\<close> and
  \<^verbatim>\<open>bytes\<close> are both character lists; a character of a \<^verbatim>\<open>str\<close> is a code point
  below 256. The inbound header container of aiohttp
  (\<^verbatim>\<open>CIMultiDictProxy\<close>) is an ordered list of name/value pairs which may repeat a
  name and is looked up without regard to case; the \<^verbatim>\<open>headers = {}\<close> the module
  builds is a plain \<^verbatim>\<open>dict\<close>: an insertion-ordered list of pairs with one entry per
  key, keys compared exactly.
\<close>

type_synonym bytes = "char list"
type_synonym CIMultiDict = "(string \<times> string) list"
type_synonym dict = "(string \<times> string) list"

datatype error =
    HTTPUnauthorized
  | HTTPServiceUnavailable
  | HTTPBadGateway
  | ClientError
  | ClientPayloadError
  | ConnectionResetError
  | RuntimeError
  | ValueError
  | TypeError

subsection \<open>Strings\<close>

text \<open>
  \<^verbatim>\<open>str.lower()\<close>: the ASCII capitals and the capitals among the code points from
  \<^verbatim>\<open>0xC0\<close> to \<^verbatim>\<open>0xDE\<close> move to their small letters; every other character below 256
  is left as it is.
\<close>

definition capitals :: string where
  "capitals = ''ABCDEFGHIJKLMNOPQRSTUVWXYZ'' @
     [CHR 0xC0, CHR 0xC1, CHR 0xC2, CHR 0xC3, CHR 0xC4, CHR 0xC5, CHR 0xC6, CHR 0xC7,
      CHR 0xC8, CHR 0xC9, CHR 0xCA, CHR 0xCB, CHR 0xCC, CHR 0xCD, CHR 0xCE, CHR 0xCF,
      CHR 0xD0, CHR 0xD1, CHR 0xD2, CHR 0xD3, CHR 0xD4, CHR 0xD5, CHR 0xD6, CHR 0xD8,
      CHR 0xD9, CHR 0xDA, CHR 0xDB, CHR 0xDC, CHR 0xDD, CHR 0xDE]"

definition small_letters :: string where
  "small_letters = ''abcdefghijklmnopqrstuvwxyz'' @
     [CHR 0xE0, CHR 0xE1, CHR 0xE2, CHR 0xE3, CHR 0xE4, CHR 0xE5, CHR 0xE6, CHR 0xE7,
      CHR 0xE8, CHR 0xE9, CHR 0xEA, CHR 0xEB, CHR 0xEC, CHR 0xED, CHR 0xEE, CHR 0xEF,
      CHR 0xF0, CHR 0xF1, CHR 0xF2, CHR 0xF3, CHR 0xF4, CHR 0xF5, CHR 0xF6, CHR 0xF8,
      CHR 0xF9, CHR 0xFA, CHR 0xFB, CHR 0xFC, CHR 0xFD, CHR 0xFE]"

definition lower_char :: "char \<Rightarrow> char" where
  "lower_char c = (case map_of (zip capitals small_letters) c of Some l \<Rightarrow> l | None \<Rightarrow> c)"

definition lower :: "string \<Rightarrow> string" where
  "lower s = map lower_char s"

text \<open>An f-string field \<^verbatim>\<open>{x}\<close> whose value may be \<^verbatim>\<open>None\<close> prints \<^verbatim>\<open>None\<close>.\<close>

definition format_field :: "string option \<Rightarrow> string" where
  "format_field x = (case x of None \<Rightarrow> ''None'' | Some s \<Rightarrow> s)"

text \<open>\<^verbatim>\<open>s.split(sep)\<close> with a one-character separator: always at least one piece.\<close>

fun split :: "char \<Rightarrow> string \<Rightarrow> string list" where
  "split sep [] = [[]]"
| "split sep (c # cs) =
     (if c = sep then [] # split sep cs
      else (case split sep cs of [] \<Rightarrow> [[c]] | p # ps \<Rightarrow> (c # p) # ps))"

definition digit_value :: "char \<Rightarrow> nat option" where
  "digit_value c = map_of (zip ''0123456789'' [0, 1, 2, 3, 4, 5, 6, 7, 8, 9]) c"

definition is_digit :: "char \<Rightarrow> bool" where
  "is_digit c = (digit_value c \<noteq> None)"

definition decimal :: "string \<Rightarrow> nat" where
  "decimal s = foldl (\<lambda>n c. 10 * n + (case digit_value c of Some d \<Rightarrow> d | None \<Rightarrow> 0)) 0 s"

definition digit_char :: "nat \<Rightarrow> char" where
  "digit_char d = ''0123456789'' ! d"

function str_nat :: "nat \<Rightarrow> string" where
  "str_nat n = (if n < 10 then [digit_char n] else str_nat (n div 10) @ [digit_char (n mod 10)])"
  by pat_completeness auto
termination
  by (relation "measure id") auto

declare str_nat.simps [simp del]

fun intercalate :: "string \<Rightarrow> string list \<Rightarrow> string" where
  "intercalate sep [] = []"
| "intercalate sep [x] = x"
| "intercalate sep (x # y # ys) = x @ sep @ intercalate sep (y # ys)"

subsection \<open>Header containers\<close>

text \<open>\<^verbatim>\<open>CIMultiDict.get(key)\<close>: the first value stored under the key, case-insensitively.\<close>

fun multidict_get :: "CIMultiDict \<Rightarrow> string \<Rightarrow> string option" where
  "multidict_get [] key = None"
| "multidict_get ((k, v) # rest) key =
     (if lower k = lower key then Some v else multidict_get rest key)"

text \<open>
  \<^verbatim>\<open>d[k] = v\<close> on a plain dict: an existing key keeps its place and takes the new
  value, a new key goes to the end.
\<close>

fun dict_setitem :: "dict \<Rightarrow> string \<Rightarrow> string \<Rightarrow> dict" where
  "dict_setitem [] k v = [(k, v)]"
| "dict_setitem ((k', v') # d) k v =
     (if k' = k then (k', v) # d else (k', v') # dict_setitem d k v)"

text \<open>
  The loop both header functions run:
  \<^verbatim>\<open>for name, value in source.items(): if name in skipped: continue; headers[name] = value\<close>.
\<close>

fun copy_headers :: "string list \<Rightarrow> CIMultiDict \<Rightarrow> dict \<Rightarrow> dict" where
  "copy_headers skipped [] headers = headers"
| "copy_headers skipped ((name, value) # rest) headers =
     (if name \<in> set skipped then copy_headers skipped rest headers
      else copy_headers skipped rest (dict_setitem headers name value))"

subsection \<open>Header names of \<^verbatim>\<open>aiohttp.hdrs\<close>\<close>

definition CONTENT_LENGTH :: string where "CONTENT_LENGTH = ''Content-Length''"
definition CONTENT_ENCODING :: string where "CONTENT_ENCODING = ''Content-Encoding''"
definition CONTENT_TYPE :: string where "CONTENT_TYPE = ''Content-Type''"
definition TRANSFER_ENCODING :: string where "TRANSFER_ENCODING = ''Transfer-Encoding''"
definition SEC_WEBSOCKET_EXTENSIONS :: string where
  "SEC_WEBSOCKET_EXTENSIONS = ''Sec-WebSocket-Extensions''"
definition SEC_WEBSOCKET_PROTOCOL :: string where
  "SEC_WEBSOCKET_PROTOCOL = ''Sec-WebSocket-Protocol''"
definition SEC_WEBSOCKET_VERSION :: string where
  "SEC_WEBSOCKET_VERSION = ''Sec-WebSocket-Version''"
definition SEC_WEBSOCKET_KEY :: string where "SEC_WEBSOCKET_KEY = ''Sec-WebSocket-Key''"
definition X_FORWARDED_FOR :: string where "X_FORWARDED_FOR = ''X-Forwarded-For''"
definition CONNECTION :: string where "CONNECTION = ''Connection''"
definition UPGRADE :: string where "UPGRADE = ''Upgrade''"

lemmas hdrs_defs =
  CONTENT_LENGTH_def CONTENT_ENCODING_def CONTENT_TYPE_def TRANSFER_ENCODING_def
  SEC_WEBSOCKET_EXTENSIONS_def SEC_WEBSOCKET_PROTOCOL_def SEC_WEBSOCKET_VERSION_def
  SEC_WEBSOCKET_KEY_def X_FORWARDED_FOR_def CONNECTION_def UPGRADE_def

subsection \<open>The peer address\<close>

text \<open>
  \<^verbatim>\<open>ipaddress.ip_address(text)\<close> tries the text as IPv4 and then as IPv6, and raises
  \<^verbatim>\<open>ValueError\<close> when it is neither. The IPv4 reader is written out: four octets
  separated by dots, each one to three decimal digits without a leading zero, at most
  255. The IPv6 reader of the standard library is a parameter: it gives the canonical
  text of the address, or \<open>None\<close> for text that is no IPv6 address.
\<close>

datatype ip = IPv4Address "nat list" | IPv6Address string

definition parse_octet :: "string \<Rightarrow> nat option" where
  "parse_octet s =
     (if s = [] \<or> \<not> list_all is_digit s \<or> 3 < length s then None
      else if s \<noteq> ''0'' \<and> hd s = CHR ''0'' then None
      else if 255 < decimal s then None
      else Some (decimal s))"

definition ip_int_from_string :: "string \<Rightarrow> nat list option" where
  "ip_int_from_string s =
     (let octets = map parse_octet (split (CHR ''.'') s)
      in if length octets = 4 \<and> list_all (\<lambda>x. x \<noteq> None) octets
         then Some (map the octets) else None)"

definition ip_address :: "(string \<Rightarrow> string option) \<Rightarrow> string \<Rightarrow> error + ip" where
  "ip_address ipv6 s =
     (case ip_int_from_string s of
        Some octets \<Rightarrow> Inr (IPv4Address octets)
      | None \<Rightarrow> (case ipv6 s of Some t \<Rightarrow> Inr (IPv6Address t) | None \<Rightarrow> Inl ValueError))"

fun str_ip :: "ip \<Rightarrow> string" where
  "str_ip (IPv4Address octets) = intercalate ''.'' (map str_nat octets)"
| "str_ip (IPv6Address t) = t"

subsection \<open>Requests, add-ons and the module's surroundings\<close>

text \<open>
  The fields of \<^verbatim>\<open>web.Request\<close> the module reads. \<open>req_peername\<close> is what
  \<^verbatim>\<open>request.transport.get_extra_info("peername")\<close> returns, \<open>None\<close> when the transport
  has no such information. \<open>req_body\<close> is the client body, \<open>req_write_limit\<close> the number
  of body writes the client connection accepts before it raises
  \<^verbatim>\<open>ConnectionResetError\<close> (\<open>None\<close>: it accepts all of them).
\<close>

record request =
  req_method :: string
  req_headers :: CIMultiDict
  req_cookies :: "(string \<times> string) list"
  req_match_info :: "(string \<times> string) list"
  req_query_string :: string
  req_query :: "(string \<times> string) list"
  req_peername :: "(string \<times> nat) option"
  req_body :: bytes
  req_write_limit :: "nat option"

text \<open>The properties of \<^verbatim>\<open>Addon\<close> the module reads.\<close>

record addon =
  addon_ip_address :: string
  ingress_port :: nat
  ingress_stream :: bool

text \<open>
  The constants \<^verbatim>\<open>COOKIE_INGRESS\<close>, \<^verbatim>\<open>HEADER_TOKEN\<close> and \<^verbatim>\<open>HEADER_TOKEN_OLD\<close> come
  from \<^verbatim>\<open>supervisor/api/const.py\<close>; they are parameters here, together with the
  IPv6 reader.
\<close>

record module_consts =
  COOKIE_INGRESS :: string
  HEADER_TOKEN :: string
  HEADER_TOKEN_OLD :: string
  IPv6_reader :: "string \<Rightarrow> string option"

section \<open>Header transform\<close>

definition request_skipped :: "module_consts \<Rightarrow> string list" where
  "request_skipped c =
     [CONTENT_LENGTH, CONTENT_ENCODING, TRANSFER_ENCODING, SEC_WEBSOCKET_EXTENSIONS,
      SEC_WEBSOCKET_PROTOCOL, SEC_WEBSOCKET_VERSION, SEC_WEBSOCKET_KEY,
      HEADER_TOKEN c, HEADER_TOKEN_OLD c]"

text \<open>
  \<^verbatim>\<open>_init_header(request, addon)\<close>. A missing peer name makes the subscript
  \<^verbatim>\<open>[0]\<close> raise \<^verbatim>\<open>TypeError\<close>; text that is no address makes \<^verbatim>\<open>ip_address\<close> raise
  \<^verbatim>\<open>ValueError\<close>.
\<close>

definition init_header :: "module_consts \<Rightarrow> request \<Rightarrow> error + dict" where
  "init_header c request =
     (let headers = copy_headers (request_skipped c) (req_headers request) [];
          forward_for = multidict_get (req_headers request) X_FORWARDED_FOR
      in case req_peername request of
           None \<Rightarrow> Inl TypeError
         | Some (host, port) \<Rightarrow>
             (case ip_address (IPv6_reader c) host of
                Inl e \<Rightarrow> Inl e
              | Inr connected_ip \<Rightarrow>
                  Inr (dict_setitem headers X_FORWARDED_FOR
                         (format_field forward_for @ '', '' @ str_ip connected_ip))))"

definition response_skipped :: "string list" where
  "response_skipped = [TRANSFER_ENCODING, CONTENT_LENGTH, CONTENT_TYPE, CONTENT_ENCODING]"

text \<open>\<^verbatim>\<open>_response_header(response)\<close>, on the headers of the backend's response.\<close>

definition response_header :: "CIMultiDict \<Rightarrow> dict" where
  "response_header response_headers = copy_headers response_skipped response_headers []"

section \<open>HTTP proxy engine\<close>

text \<open>
  The \<^verbatim>\<open>data=\<close> argument of the backend call: \<^verbatim>\<open>request.content\<close>, the live stream
  of the client body, or the bytes \<^verbatim>\<open>await request.read()\<close> returned.
\<close>

datatype body_source = Stream bytes | Buffered bytes

text \<open>The arguments of \<^verbatim>\<open>self.sys_websession.request(...)\<close>.\<close>

record client_request =
  cr_method :: string
  cr_url :: string
  cr_headers :: dict
  cr_params :: "(string \<times> string) list"
  cr_allow_redirects :: bool
  cr_data :: body_source
  cr_timeout_total :: "nat option"

text \<open>
  \<^verbatim>\<open>result.content\<close>, the reader of the backend's body. \<open>readable\<close> is what the
  reader hands out, in all, before it reaches the end of the stream or raises: the whole
  backend body when it does not raise, otherwise the part of it read before the
  exception. \<open>buffered\<close> says how many bytes the reader's buffer holds at each
  successive read (when the list runs out, all the rest is there). \<open>failure\<close> is the
  exception the reader raises in place of the end of the stream.
\<close>

record content_stream =
  readable :: bytes
  buffered :: "nat list"
  failure :: "error option"

record ClientResponse =
  status :: nat
  resp_headers :: CIMultiDict
  content_type :: string
  content :: content_stream

text \<open>What the handler returns to the web server.\<close>

datatype response =
    Response dict nat string bytes
  | StreamResponse nat dict string "bytes list"
  | WebSocketResponse "string list"

text \<open>The calls the handler makes on its collaborators, in order.\<close>

datatype event =
    ValidateSession "string option"
  | IngressGet "string option"
  | BackendRequest client_request
  | WsPrepare "string list"
  | WsConnect string dict "string list"
  | WsRelay

text \<open>
  What \<^verbatim>\<open>self\<close> gives access to: the session store and the registry behind
  \<^verbatim>\<open>sys_ingress\<close>, and the HTTP client session \<^verbatim>\<open>sys_websession\<close>. The store is handed
  whatever the cookie lookup returned, \<open>None\<close> included. \<open>ws_connect\<close> answers with the
  exception the connection attempt raises, if any.
\<close>

record coresys =
  validate_session :: "string option \<Rightarrow> bool"
  ingress_get :: "string option \<Rightarrow> addon option"
  websession_request :: "client_request \<Rightarrow> error + ClientResponse"
  websession_ws_connect :: "string \<Rightarrow> dict \<Rightarrow> string list \<Rightarrow> error option"

subsection \<open>\<^verbatim>\<open>int(text)\<close>\<close>

text \<open>
  The white space \<^verbatim>\<open>str.strip()\<close> removes, among the code points below 256.
\<close>

definition is_space :: "char \<Rightarrow> bool" where
  "is_space c = (c \<in> set [CHR 0x09, CHR 0x0A, CHR 0x0B, CHR 0x0C, CHR 0x0D,
                            CHR 0x1C, CHR 0x1D, CHR 0x1E, CHR 0x1F, CHR '' '',
                            CHR 0x85, CHR 0xA0])"

definition strip :: "string \<Rightarrow> string" where
  "strip s = rev (dropWhile is_space (rev (dropWhile is_space s)))"

text \<open>
  Python's \<^verbatim>\<open>int\<close> on text, base ten. It skips white space at both ends: the six
  ASCII characters of C's \<^verbatim>\<open>isspace\<close> and the two white-space code points above 127
  (the separators \<^verbatim>\<open>0x1C\<close> to \<^verbatim>\<open>0x1F\<close>, which \<^verbatim>\<open>strip\<close> removes, it does not skip).
  Then come an optional sign and ASCII decimal digits in groups separated by single
  underscores, at most 4300 digits (the interpreter's default limit). Anything else
  raises \<^verbatim>\<open>ValueError\<close> (\<open>None\<close>).
\<close>

definition int_space :: "char \<Rightarrow> bool" where
  "int_space c = (c \<in> set [CHR 0x09, CHR 0x0A, CHR 0x0B, CHR 0x0C, CHR 0x0D, CHR '' '',
                             CHR 0x85, CHR 0xA0])"

definition int_digits :: "string \<Rightarrow> int option" where
  "int_digits s =
     (let groups = split (CHR ''_'') s
      in if list_all (\<lambda>g. g \<noteq> [] \<and> list_all is_digit g) groups
            \<and> length (concat groups) \<le> 4300
         then Some (int (decimal (concat groups))) else None)"

definition py_int :: "string \<Rightarrow> int option" where
  "py_int s =
     (case rev (dropWhile int_space (rev (dropWhile int_space s))) of
        [] \<Rightarrow> None
      | c # cs \<Rightarrow>
          if c = CHR ''-'' then map_option uminus (int_digits cs)
          else if c = CHR ''+'' then int_digits cs
          else int_digits (c # cs))"

subsection \<open>Reading the backend body\<close>

text \<open>\<^verbatim>\<open>await result.read()\<close>: the whole body, or the reader's exception.\<close>

definition read_body :: "content_stream \<Rightarrow> error + bytes" where
  "read_body s = (case failure s of None \<Rightarrow> Inr (readable s) | Some e \<Rightarrow> Inl e)"

text \<open>
  The chunks \<^verbatim>\<open>result.content.iter_chunked(n)\<close> yields: each read returns what the
  buffer holds, at most \<open>n\<close> bytes and at least one, until the data is consumed.
\<close>

function iter_chunked :: "nat \<Rightarrow> nat list \<Rightarrow> bytes \<Rightarrow> bytes list" where
  "iter_chunked n avail [] = []"
| "iter_chunked n avail (b # bs) =
     (let held = (case avail of [] \<Rightarrow> length (b # bs) | a # _ \<Rightarrow> a);
          k = max 1 (min n held)
      in take k (b # bs) # iter_chunked n (tl avail) (drop k (b # bs)))"
  by pat_completeness auto
termination
  by (relation "measure (\<lambda>(n, avail, data). length data)") auto

declare iter_chunked.simps(2) [simp del]

text \<open>
  \<^verbatim>\<open>await response.write(data)\<close> for each chunk in turn: the chunks written, and the
  exception of the first write the client connection refuses.
\<close>

fun write_chunks :: "nat option \<Rightarrow> bytes list \<Rightarrow> bytes list \<times> error option" where
  "write_chunks limit [] = ([], None)"
| "write_chunks limit (ch # chs) =
     (if limit = Some 0 then ([], Some ConnectionResetError)
      else (case write_chunks (map_option (\<lambda>k. k - 1) limit) chs of
              (written, e) \<Rightarrow> (ch # written, e)))"

subsection \<open>\<^verbatim>\<open>_create_url\<close> and \<^verbatim>\<open>_handle_request\<close>\<close>

definition create_url :: "addon \<Rightarrow> string option \<Rightarrow> string" where
  "create_url addon path =
     ''http://'' @ addon_ip_address addon @ '':'' @ str_nat (ingress_port addon) @ ''/''
       @ format_field path"

text \<open>
  The body of \<^verbatim>\<open>async with self.sys_websession.request(...) as result\<close>, and
  first its test \<^verbatim>\<open>CONTENT_LENGTH in result.headers and int(...) < 4_194_000\<close>: a
  \<^verbatim>\<open>Content-Length\<close> that \<^verbatim>\<open>int\<close> rejects raises \<^verbatim>\<open>ValueError\<close>. In the buffered
  branch a failing read and a failing constructor leave the function. In the streamed
  branch the three exceptions of the \<^verbatim>\<open>except\<close> clause are logged and the response is
  returned with what was written; any other exception leaves the function.
\<close>

text \<open>\<^verbatim>\<open>sub in s\<close> on text.\<close>

fun substring :: "string \<Rightarrow> string \<Rightarrow> bool" where
  "substring sub [] = (sub = [])"
| "substring sub (c # cs) = (take (length sub) (c # cs) = sub \<or> substring sub cs)"

text \<open>
  The constructor \<^verbatim>\<open>web.Response(headers=..., status=..., content_type=..., body=...)\<close>
  raises \<^verbatim>\<open>ValueError\<close> when the content type holds \<^verbatim>\<open>charset\<close>, and when the headers
  already hold a content type under any spelling of the name.
\<close>

definition web_Response :: "dict \<Rightarrow> nat \<Rightarrow> string \<Rightarrow> bytes \<Rightarrow> error + response" where
  "web_Response headers status_code ctype body =
     (if substring ''charset'' ctype then Inl ValueError
      else if multidict_get headers CONTENT_TYPE \<noteq> None then Inl ValueError
      else Inr (Response headers status_code ctype body))"

definition simple_request :: "CIMultiDict \<Rightarrow> error + bool" where
  "simple_request response_headers =
     (case multidict_get response_headers CONTENT_LENGTH of
        None \<Rightarrow> Inr False
      | Some v \<Rightarrow> (case py_int v of None \<Rightarrow> Inl ValueError | Some n \<Rightarrow> Inr (n < 4194000)))"

definition deliver :: "request \<Rightarrow> ClientResponse \<Rightarrow> error + response" where
  "deliver request result =
     (let headers = response_header (resp_headers result)
      in case simple_request (resp_headers result) of
           Inl e \<Rightarrow> Inl e
         | Inr simple \<Rightarrow>
             if simple then
               (case read_body (content result) of
                  Inl e \<Rightarrow> Inl e
                | Inr body \<Rightarrow> web_Response headers (status result) (content_type result) body)
             else
               (case write_chunks (req_write_limit request)
                       (iter_chunked 4096 (buffered (content result)) (readable (content result))) of
                  (written, write_error) \<Rightarrow>
                    (let raised = (case write_error of
                                     Some e \<Rightarrow> Some e
                                   | None \<Rightarrow> failure (content result));
                         response = StreamResponse (status result) headers (content_type result) written
                     in case raised of
                          None \<Rightarrow> Inr response
                        | Some e \<Rightarrow>
                            if e \<in> set [ClientError, ClientPayloadError, ConnectionResetError]
                            then Inr response else Inl e)))"

definition handle_request ::
  "module_consts \<Rightarrow> coresys \<Rightarrow> request \<Rightarrow> addon \<Rightarrow> string option
     \<Rightarrow> (error + response) \<times> event list" where
  "handle_request c sys request addon path =
     (let url = create_url addon path
      in case init_header c request of
           Inl e \<Rightarrow> (Inl e, [])
         | Inr source_header \<Rightarrow>
             (let data = (if req_method request = ''POST'' \<and> ingress_stream addon
                          then Stream (req_body request)
                          else Buffered (req_body request));
                  call = \<lparr>cr_method = req_method request, cr_url = url,
                          cr_headers = source_header, cr_params = req_query request,
                          cr_allow_redirects = False, cr_data = data,
                          cr_timeout_total = None\<rparr>
              in case websession_request sys call of
                   Inl e \<Rightarrow> (Inl e, [BackendRequest call])
                 | Inr result \<Rightarrow> (deliver request result, [BackendRequest call])))"

section \<open>WebSocket relay\<close>

datatype WSMsgType =
  CONTINUATION | TEXT | BINARY | PING | PONG | CLOSE | CLOSING | CLOSED | ERROR

text \<open>
  A message as \<^verbatim>\<open>receive()\<close> returns it: \<^verbatim>\<open>msg.type\<close>, \<^verbatim>\<open>msg.data\<close> and
  \<^verbatim>\<open>msg.extra\<close>, which may be \<^verbatim>\<open>None\<close>.
\<close>

record WSMessage =
  msg_type :: WSMsgType
  msg_data :: string
  msg_extra :: "string option"

text \<open>The methods the loop calls on \<^verbatim>\<open>ws_to\<close>.\<close>

datatype ws_call =
    SendStr string
  | SendBytes bytes
  | Ping
  | Pong
  | Close "int option" "string option"

text \<open>
  The destination as one iteration of the loop finds it: \<^verbatim>\<open>ws_to.closed\<close>,
  \<^verbatim>\<open>ws_to.close_code\<close>, and the exception its method raises when called in this
  iteration, if any. The other forwarding task and the network change the destination
  between iterations, so every message comes with its own view.
\<close>

record ws_view =
  to_closed :: bool
  to_close_code :: "int option"
  to_raises :: "error option"

text \<open>The \<^verbatim>\<open>if\<close>/\<^verbatim>\<open>elif\<close> chain of the loop body: the call it makes, if any.\<close>

definition forward_message :: "WSMessage \<Rightarrow> ws_view \<Rightarrow> ws_call option" where
  "forward_message msg ws_to =
     (if msg_type msg = TEXT then Some (SendStr (msg_data msg))
      else if msg_type msg = BINARY then Some (SendBytes (msg_data msg))
      else if msg_type msg = PING then Some Ping
      else if msg_type msg = PONG then Some Pong
      else if to_closed ws_to then Some (Close (to_close_code ws_to) (msg_extra msg))
      else None)"

text \<open>
  \<^verbatim>\<open>async for msg in ws_from\<close>. Both objects the handler passes as \<^verbatim>\<open>ws_from\<close> are
  aiohttp web sockets (\<^verbatim>\<open>web.WebSocketResponse\<close> and the client's
  \<^verbatim>\<open>ClientWebSocketResponse\<close>); their iterator takes the next message from
  \<^verbatim>\<open>receive()\<close> and ends the iteration when its type is \<^verbatim>\<open>CLOSE\<close>, \<^verbatim>\<open>CLOSING\<close> or
  \<^verbatim>\<open>CLOSED\<close>, so such a message never reaches the loop body.
\<close>

definition ends_iteration :: "WSMessage \<Rightarrow> bool" where
  "ends_iteration msg = (msg_type msg \<in> set [CLOSE, CLOSING, CLOSED])"

text \<open>
  The loop over the messages \<^verbatim>\<open>receive()\<close> returns, each with the view of the
  destination; \<open>ends\<close> is the exception \<^verbatim>\<open>receive()\<close> raises once the list is used up
  (\<open>None\<close> when the iteration ends by itself). The result is the calls issued and the
  exception that leaves the loop.
\<close>

fun forward_loop ::
  "(WSMessage \<times> ws_view) list \<Rightarrow> error option \<Rightarrow> ws_call list \<times> error option" where
  "forward_loop [] ends = ([], ends)"
| "forward_loop ((msg, ws_to) # rest) ends =
     (if ends_iteration msg then ([], None)
      else
        (case forward_message msg ws_to of
           None \<Rightarrow> forward_loop rest ends
         | Some call \<Rightarrow>
             (case to_raises ws_to of
                Some e \<Rightarrow> ([call], Some e)
              | None \<Rightarrow> (case forward_loop rest ends of (calls, r) \<Rightarrow> (call # calls, r)))))"

text \<open>
  \<^verbatim>\<open>_websocket_forward(ws_from, ws_to)\<close>: a \<^verbatim>\<open>RuntimeError\<close> is logged and the task
  ends normally, any other exception ends it.
\<close>

definition websocket_forward ::
  "(WSMessage \<times> ws_view) list \<Rightarrow> error option \<Rightarrow> ws_call list \<times> error option" where
  "websocket_forward ws_from ends =
     (case forward_loop ws_from ends of
        (calls, r) \<Rightarrow> (calls, if r = Some RuntimeError then None else r))"

text \<open>
  The translation of frames in the words of the specification: text as text, binary as
  binary, a ping as a ping of the relay's own, a pong as a pong.
\<close>

fun relayed_as :: "WSMessage \<Rightarrow> ws_call" where
  "relayed_as msg =
     (case msg_type msg of
        TEXT \<Rightarrow> SendStr (msg_data msg)
      | BINARY \<Rightarrow> SendBytes (msg_data msg)
      | PING \<Rightarrow> Ping
      | _ \<Rightarrow> Pong)"

definition is_data_frame :: "WSMessage \<Rightarrow> bool" where
  "is_data_frame msg = (msg_type msg \<in> set [TEXT, BINARY, PING, PONG])"

fun is_close :: "ws_call \<Rightarrow> bool" where
  "is_close (Close code message) = True"
| "is_close call = False"

subsection \<open>\<^verbatim>\<open>_is_websocket\<close> and \<^verbatim>\<open>_handle_websocket\<close>\<close>

definition get_default :: "CIMultiDict \<Rightarrow> string \<Rightarrow> string \<Rightarrow> string" where
  "get_default h key fallback = (case multidict_get h key of None \<Rightarrow> fallback | Some v \<Rightarrow> v)"

definition is_websocket :: "request \<Rightarrow> bool" where
  "is_websocket request =
     (substring ''upgrade'' (lower (get_default (req_headers request) CONNECTION []))
      \<and> lower (get_default (req_headers request) UPGRADE []) = ''websocket'')"

text \<open>
  \<^verbatim>\<open>_handle_websocket\<close>. The two forwarding tasks run concurrently inside
  \<^verbatim>\<open>asyncio.wait\<close>; here they are the single event \<open>WsRelay\<close>, after which the
  function returns the client-facing socket.
\<close>

definition handle_websocket ::
  "module_consts \<Rightarrow> coresys \<Rightarrow> request \<Rightarrow> addon \<Rightarrow> string option
     \<Rightarrow> (error + response) \<times> event list" where
  "handle_websocket c sys request addon path =
     (let req_protocols =
            (case multidict_get (req_headers request) SEC_WEBSOCKET_PROTOCOL of
               Some v \<Rightarrow> map strip (split (CHR '','') v)
             | None \<Rightarrow> [])
      in case init_header c request of
           Inl e \<Rightarrow> (Inl e, [WsPrepare req_protocols])
         | Inr source_header \<Rightarrow>
             (let url = create_url addon path;
                  url = (if req_query_string request \<noteq> [] then url @ ''?'' @ req_query_string request
                         else url)
              in case websession_ws_connect sys url source_header req_protocols of
                   Some e \<Rightarrow> (Inl e, [WsPrepare req_protocols, WsConnect url source_header req_protocols])
                 | None \<Rightarrow>
                     (Inr (WebSocketResponse req_protocols),
                      [WsPrepare req_protocols, WsConnect url source_header req_protocols, WsRelay])))"

section \<open>Request dispatcher\<close>

text \<open>\<^verbatim>\<open>_extract_addon\<close>: the registry lookup, \<^verbatim>\<open>HTTPServiceUnavailable\<close> when it finds nothing.\<close>

definition extract_addon :: "coresys \<Rightarrow> request \<Rightarrow> (error + addon) \<times> event list" where
  "extract_addon sys request =
     (let token = map_of (req_match_info request) ''token''
      in case ingress_get sys token of
           None \<Rightarrow> (Inl HTTPServiceUnavailable, [IngressGet token])
         | Some addon \<Rightarrow> (Inr addon, [IngressGet token]))"

text \<open>\<^verbatim>\<open>except aiohttp.ClientError\<close> catches the class and its subclasses.\<close>

definition is_client_error :: "error \<Rightarrow> bool" where
  "is_client_error e = (e = ClientError \<or> e = ClientPayloadError)"

text \<open>
  The body of \<^verbatim>\<open>handler\<close>, as it runs once the \<^verbatim>\<open>require_home_assistant\<close> decorator
  has let the request through.
\<close>

definition handler ::
  "module_consts \<Rightarrow> coresys \<Rightarrow> request \<Rightarrow> (error + response) \<times> event list" where
  "handler c sys request =
     (let session = map_of (req_cookies request) (COOKIE_INGRESS c)
      in if \<not> validate_session sys session
         then (Inl HTTPUnauthorized, [ValidateSession session])
         else
           (case extract_addon sys request of
              (Inl e, looked_up) \<Rightarrow> (Inl e, ValidateSession session # looked_up)
            | (Inr addon, looked_up) \<Rightarrow>
                (let path = map_of (req_match_info request) ''path'';
                     proxied = (if is_websocket request
                                then handle_websocket c sys request addon path
                                else handle_request c sys request addon path)
                 in case proxied of
                      (Inl e, contacted) \<Rightarrow>
                        (Inl (if is_client_error e then HTTPBadGateway else e),
                         ValidateSession session # looked_up @ contacted)
                    | (Inr r, contacted) \<Rightarrow>
                        (Inr r, ValidateSession session # looked_up @ contacted))))"

text \<open>Concrete surroundings and requests for the examples.\<close>

definition example_consts :: module_consts where
  "example_consts =
     \<lparr>COOKIE_INGRESS = ''ingress_session'', HEADER_TOKEN = ''X-Supervisor-Token'',
      HEADER_TOKEN_OLD = ''X-Hassio-Key'', IPv6_reader = (\<lambda>s. None)\<rparr>"

definition example_request :: "CIMultiDict \<Rightarrow> request" where
  "example_request hs =
     \<lparr>req_method = ''GET'', req_headers = hs, req_cookies = [],
      req_match_info = [(''token'', ''abc''), (''path'', ''index.html'')],
      req_query_string = [], req_query = [],
      req_peername = Some (''10.0.0.5'', 51234), req_body = [], req_write_limit = None\<rparr>"

definition example_addon :: addon where
  "example_addon = \<lparr>addon_ip_address = ''172.30.33.1'', ingress_port = 8099, ingress_stream = False\<rparr>"

definition example_result :: "CIMultiDict \<Rightarrow> bytes \<Rightarrow> ClientResponse" where
  "example_result hs body =
     \<lparr>status = 200, resp_headers = hs, content_type = ''text/plain'',
      content = \<lparr>readable = body, buffered = [], failure = None\<rparr>\<rparr>"

definition example_sys :: "ClientResponse \<Rightarrow> coresys" where
  "example_sys result =
     \<lparr>validate_session = (\<lambda>s. s = Some ''valid''),
      ingress_get = (\<lambda>t. if t = Some ''abc'' then Some example_addon else None),
      websession_request = (\<lambda>call. Inr result),
      websession_ws_connect = (\<lambda>url hs protocols. None)\<rparr>"

definition authorized :: "request \<Rightarrow> request" where
  "authorized request = request\<lparr>req_cookies := [(''ingress_session'', ''valid'')]\<rparr>"

text \<open>The value the loop leaves under a name is the last one the source lists for it.\<close>

definition last_value :: "CIMultiDict \<Rightarrow> string \<Rightarrow> string" where
  "last_value hs name = last (map snd (filter (\<lambda>p. fst p = name) hs))"

definition open_destination :: ws_view where
  "open_destination = \<lparr>to_closed = False, to_close_code = None, to_raises = None\<rparr>"

definition closed_destination :: ws_view where
  "closed_destination = \<lparr>to_closed = True, to_close_code = Some 1000, to_raises = None\<rparr>"

definition frame :: "WSMsgType \<Rightarrow> string \<Rightarrow> string option \<Rightarrow> WSMessage" where
  "frame t d x = \<lparr>msg_type = t, msg_data = d, msg_extra = x\<rparr>"

lemmas frame_defs = open_destination_def closed_destination_def frame_def

definition example_broken :: ClientResponse where
  "example_broken =
     \<lparr>status = 200, resp_headers = [(''Content-Length'', ''1000'')],
      content_type = ''text/plain'',
      content = \<lparr>readable = ''hel'', buffered = [], failure = Some ClientPayloadError\<rparr>\<rparr>"

section \<open>Properties of the header transform\<close>

subsection \<open>Evaluation of the examples\<close>

lemma parse_octet_examples:
  "parse_octet ''10'' = Some 10" "parse_octet ''0'' = Some 0" "parse_octet ''5'' = Some 5"
  by (simp_all add: parse_octet_def is_digit_def digit_value_def decimal_def)

lemma str_nat_examples: "str_nat 10 = ''10''" "str_nat 0 = ''0''" "str_nat 5 = ''5''"
  by (simp_all add: str_nat.simps digit_char_def)

lemma peer_10_0_0_5: "ip_address ipv6 ''10.0.0.5'' = Inr (IPv4Address [10, 0, 0, 5])"
  by (simp add: ip_address_def ip_int_from_string_def parse_octet_examples)

lemma lower_examples:
  "lower ''X-Forwarded-For'' = ''x-forwarded-for''"
  "lower ''Accept'' = ''accept''"
  "lower ''Content-Length'' = ''content-length''"
  "lower ''X-Supervisor-Token'' = ''x-supervisor-token''"
  by (simp_all add: lower_def lower_char_def capitals_def small_letters_def)

lemmas example_defs =
  init_header_def example_request_def example_consts_def request_skipped_def hdrs_defs
  format_field_def peer_10_0_0_5 str_nat_examples lower_examples

subsection \<open>The dict and the copying loop\<close>

lemma keys_dict_setitem: "fst ` set (dict_setitem d k v) = insert k (fst ` set d)"
  by (induction d k v rule: dict_setitem.induct) auto

lemma map_of_dict_setitem: "map_of (dict_setitem d k v) = (map_of d)(k \<mapsto> v)"
  by (induction d k v rule: dict_setitem.induct) (auto simp: fun_eq_iff)

lemma distinct_dict_setitem:
  "distinct (map fst d) \<Longrightarrow> distinct (map fst (dict_setitem d k v))"
  by (induction d k v rule: dict_setitem.induct) (auto simp: keys_dict_setitem)


lemma distinct_copy_headers:
  "distinct (map fst acc) \<Longrightarrow> distinct (map fst (copy_headers skipped hs acc))"
  by (induction skipped hs acc rule: copy_headers.induct) (auto simp: distinct_dict_setitem)

lemma filter_absent: "k \<notin> fst ` set d \<Longrightarrow> filter (\<lambda>p. fst p = k) d = []"
  by (induction d) auto

lemma map_of_copy_headers:
  "name \<notin> set skipped \<Longrightarrow> name \<in> fst ` set hs \<Longrightarrow>
   map_of (copy_headers skipped hs acc) name = Some (last_value hs name)"
proof (induction skipped hs acc rule: copy_headers.induct)
  case (1 skipped headers)
  then show ?case by simp
next
  case (2 skipped n v rest headers)
  show ?case
  proof (cases "name \<in> fst ` set rest")
    case True
    with 2 show ?thesis
      by (auto simp: last_value_def filter_empty_conv)
  next
    case False
    have keep: "map_of (copy_headers skipped rest acc') name = map_of acc' name" for acc'
      using False
    proof (induction skipped rest acc' rule: copy_headers.induct)
      case (1 skipped headers)
      then show ?case by simp
    next
      case (2 skipped n v rest headers)
      then show ?case by (auto simp: map_of_dict_setitem)
    qed
    from False 2 have "n = name" by auto
    moreover have "filter (\<lambda>p. fst p = name) rest = []"
      using False by (simp add: filter_absent)
    ultimately show ?thesis
      using 2(3) by (simp add: keep map_of_dict_setitem last_value_def)
  qed
qed

lemma single_entry:
  "distinct (map fst d) \<Longrightarrow> map_of d k = Some v \<Longrightarrow> filter (\<lambda>p. fst p = k) d = [(k, v)]"
proof (induction d)
  case Nil
  then show ?case by simp
next
  case (Cons p d)
  show ?case
  proof (cases "fst p = k")
    case True
    with Cons.prems have "filter (\<lambda>p. fst p = k) d = []"
      by (simp add: filter_absent)
    with True Cons.prems show ?thesis by (cases p) auto
  next
    case False
    with Cons show ?thesis by (cases p) auto
  qed
qed

lemma init_header_result:
  assumes "init_header c request = Inr headers"
  obtains host port connected_ip where
    "req_peername request = Some (host, port)"
    "ip_address (IPv6_reader c) host = Inr connected_ip"
    "headers = dict_setitem (copy_headers (request_skipped c) (req_headers request) [])
       X_FORWARDED_FOR
       (format_field (multidict_get (req_headers request) X_FORWARDED_FOR) @ '', ''
          @ str_ip connected_ip)"
  using assms unfolding init_header_def
  by (auto simp: Let_def split: option.splits sum.splits prod.splits)

text \<open>
  C1. The forwarded-for header is the prior value with the peer address appended; with
  no prior header and peer 10.0.0.5 it should be exactly \<open>10.0.0.5\<close>. The code formats
  the absent prior value into the chain: its output is \<open>None, 10.0.0.5\<close>.
\<close>

theorem init_header_forwarded_for_absent:
  "init_header example_consts (example_request [])
     = Inr [(''X-Forwarded-For'', ''None, 10.0.0.5'')]"
  by (simp add: example_defs)

lemma init_header_forwarded_for_prior:
  "init_header example_consts (example_request [(''X-Forwarded-For'', ''1.2.3.4'')])
     = Inr [(''X-Forwarded-For'', ''1.2.3.4, 10.0.0.5'')]"
  by (simp add: example_defs)

lemma init_header_forwarded_for_chain:
  assumes "init_header c request = Inr headers"
      and "multidict_get (req_headers request) X_FORWARDED_FOR = Some prior"
      and "req_peername request = Some (host, port)"
      and "ip_address (IPv6_reader c) host = Inr connected_ip"
  shows "map_of headers X_FORWARDED_FOR = Some (prior @ '', '' @ str_ip connected_ip)"
  using assms by (auto elim!: init_header_result simp: map_of_dict_setitem format_field_def)




text \<open>
  C9. Several values under one inbound header name are all carried to the outbound
  request headers. The transform builds a plain dict, so an assignment under a name
  that is already there replaces the value: of two \<open>Accept\<close> headers only the second
  one is left.
\<close>

theorem init_header_duplicates_counterexample:
  "init_header example_consts
     (example_request [(''Accept'', ''text/html''), (''Accept'', ''image/png''),
        (''X-Forwarded-For'', ''1.2.3.4'')])
     = Inr [(''Accept'', ''image/png''), (''X-Forwarded-For'', ''1.2.3.4, 10.0.0.5'')]
   \<and> (''Accept'', ''text/html'')
        \<notin> set [(''Accept'', ''image/png''), (''X-Forwarded-For'', ''1.2.3.4, 10.0.0.5'')]"
  by (simp add: example_defs)

text \<open>
  C9, amended. Names are told apart by their exact spelling. For a spelling outside the
  filtered names and other than \<^verbatim>\<open>X-Forwarded-For\<close>, the outbound request headers hold
  exactly one entry under that spelling, with the last value the inbound headers list
  under that same spelling. Another letter case of the name is another name, with an
  entry of its own.
\<close>

theorem init_header_keeps_last_value:
  assumes "init_header c request = Inr headers"
      and "name \<in> fst ` set (req_headers request)"
      and "name \<notin> set (request_skipped c)"
      and "name \<noteq> X_FORWARDED_FOR"
  shows "filter (\<lambda>p. fst p = name) headers = [(name, last_value (req_headers request) name)]"
proof -
  let ?copied = "copy_headers (request_skipped c) (req_headers request) []"
  from assms(1) obtain v where headers: "headers = dict_setitem ?copied X_FORWARDED_FOR v"
    by (rule init_header_result)
  have "distinct (map fst ?copied)"
    by (rule distinct_copy_headers) simp
  then have distinct: "distinct (map fst headers)"
    unfolding headers by (rule distinct_dict_setitem)
  have "map_of headers name = map_of ?copied name"
    unfolding headers using assms(4) by (simp add: map_of_dict_setitem)
  also have "\<dots> = Some (last_value (req_headers request) name)"
    using assms(3,2) by (rule map_of_copy_headers)
  finally show ?thesis
    using distinct by (simp add: single_entry)
qed

theorem init_header_keeps_last_value_witness:
  "init_header example_consts
     (example_request [(''Accept'', ''text/html''), (''Accept'', ''image/png''),
        (''X-Forwarded-For'', ''1.2.3.4'')])
     = Inr [(''Accept'', ''image/png''), (''X-Forwarded-For'', ''1.2.3.4, 10.0.0.5'')]
   \<and> ''Accept'' \<in> fst ` set [(''Accept'', ''text/html''), (''Accept'', ''image/png''),
        (''X-Forwarded-For'', ''1.2.3.4'')]
   \<and> ''Accept'' \<notin> set (request_skipped example_consts)
   \<and> ''Accept'' \<noteq> X_FORWARDED_FOR
   \<and> filter (\<lambda>p. fst p = ''Accept'')
        [(''Accept'', ''image/png''), (''X-Forwarded-For'', ''1.2.3.4, 10.0.0.5'')]
      = [(''Accept'', ''image/png'')]"
proof -
  let ?hs = "[(''Accept'', ''text/html''), (''Accept'', ''image/png''),
        (''X-Forwarded-For'', ''1.2.3.4'')]"
  have run: "init_header example_consts (example_request ?hs)
      = Inr [(''Accept'', ''image/png''), (''X-Forwarded-For'', ''1.2.3.4, 10.0.0.5'')]"
    by (simp add: example_defs)
  have inbound: "''Accept'' \<in> fst ` set (req_headers (example_request ?hs))"
    by (simp add: example_request_def)
  have kept: "''Accept'' \<notin> set (request_skipped example_consts)"
    by (simp add: request_skipped_def example_consts_def hdrs_defs)
  have other: "''Accept'' \<noteq> X_FORWARDED_FOR"
    by (simp add: X_FORWARDED_FOR_def)
  have "last_value (req_headers (example_request ?hs)) ''Accept'' = ''image/png''"
    by (simp add: last_value_def example_request_def)
  with init_header_keeps_last_value [OF run inbound kept other] run kept other
  show ?thesis by simp
qed

lemma init_header_other_spelling:
  "init_header example_consts
     (example_request [(''X-Custom'', ''first''), (''x-custom'', ''second''),
        (''X-Forwarded-For'', ''1.2.3.4'')])
     = Inr [(''X-Custom'', ''first''), (''x-custom'', ''second''),
            (''X-Forwarded-For'', ''1.2.3.4, 10.0.0.5'')]"
  by (simp add: example_defs lower_def lower_char_def capitals_def small_letters_def)

section \<open>Properties of the dispatcher\<close>

text \<open>
  C2. A request whose session credential the session store does not accept (the value
  of the session cookie, or \<open>None\<close> when the cookie is absent) ends with
  \<open>HTTPUnauthorized\<close>; the only collaborator called is the session store, once: no
  registry lookup, no backend call.
\<close>

theorem handler_unauthorized:
  assumes "session = map_of (req_cookies request) (COOKIE_INGRESS c)"
      and "\<not> validate_session sys session"
  shows "handler c sys request = (Inl HTTPUnauthorized, [ValidateSession session])"
  using assms by (simp add: handler_def)

theorem handler_unauthorized_witness:
  "None = map_of (req_cookies (example_request [])) (COOKIE_INGRESS example_consts)
   \<and> \<not> validate_session (example_sys (example_result [] ''ok'')) None
   \<and> handler example_consts (example_sys (example_result [] ''ok'')) (example_request [])
       = (Inl HTTPUnauthorized, [ValidateSession None])"
proof -
  have absent: "None = map_of (req_cookies (example_request [])) (COOKIE_INGRESS example_consts)"
    by (simp add: example_request_def)
  have invalid: "\<not> validate_session (example_sys (example_result [] ''ok'')) None"
    by (simp add: example_sys_def)
  from handler_unauthorized [OF absent invalid] absent invalid show ?thesis by simp
qed

text \<open>
  C3. An authorized request whose routing token the registry does not know ends with
  \<open>HTTPServiceUnavailable\<close>; the collaborators called are the session store and the
  registry, and no backend.
\<close>

theorem handler_unknown_token:
  assumes "session = map_of (req_cookies request) (COOKIE_INGRESS c)"
      and "validate_session sys session"
      and "token = map_of (req_match_info request) ''token''"
      and "ingress_get sys token = None"
  shows "handler c sys request
           = (Inl HTTPServiceUnavailable, [ValidateSession session, IngressGet token])"
  using assms by (simp add: handler_def extract_addon_def)

theorem handler_unknown_token_witness:
  "Some ''valid'' = map_of (req_cookies (authorized (example_request [])
                       \<lparr>req_match_info := [(''token'', ''zzz'')]\<rparr>)) (COOKIE_INGRESS example_consts)
   \<and> validate_session (example_sys (example_result [] ''ok'')) (Some ''valid'')
   \<and> Some ''zzz'' = map_of (req_match_info (authorized (example_request [])
                       \<lparr>req_match_info := [(''token'', ''zzz'')]\<rparr>)) ''token''
   \<and> ingress_get (example_sys (example_result [] ''ok'')) (Some ''zzz'') = None
   \<and> handler example_consts (example_sys (example_result [] ''ok''))
         (authorized (example_request []) \<lparr>req_match_info := [(''token'', ''zzz'')]\<rparr>)
       = (Inl HTTPServiceUnavailable, [ValidateSession (Some ''valid''), IngressGet (Some ''zzz'')])"
proof -
  let ?request = "authorized (example_request []) \<lparr>req_match_info := [(''token'', ''zzz'')]\<rparr>"
  let ?sys = "example_sys (example_result [] ''ok'')"
  have session: "Some ''valid'' = map_of (req_cookies ?request) (COOKIE_INGRESS example_consts)"
    by (simp add: authorized_def example_request_def example_consts_def)
  have valid: "validate_session ?sys (Some ''valid'')"
    by (simp add: example_sys_def)
  have token: "Some ''zzz'' = map_of (req_match_info ?request) ''token''"
    by (simp add: authorized_def example_request_def)
  have unknown: "ingress_get ?sys (Some ''zzz'') = None"
    by (simp add: example_sys_def)
  note outcome = handler_unknown_token [OF session valid token unknown]
  show ?thesis
    by (intro conjI session valid token unknown outcome)
qed

section \<open>Properties of the HTTP proxy engine\<close>


lemma example_init_header:
  "init_header example_consts (example_request []) = Inr [(''X-Forwarded-For'', ''None, 10.0.0.5'')]"
  by (simp add: example_defs)


subsection \<open>The chunks of the streamed response\<close>

lemma iter_chunked_step:
  "data \<noteq> [] \<Longrightarrow>
   iter_chunked n avail data
     = take (max 1 (min n (case avail of [] \<Rightarrow> length data | a # _ \<Rightarrow> a))) data
       # iter_chunked n (tl avail)
           (drop (max 1 (min n (case avail of [] \<Rightarrow> length data | a # _ \<Rightarrow> a))) data)"
proof -
  assume "data \<noteq> []"
  then obtain b bs where data: "data = b # bs"
    by (cases data) auto
  show ?thesis
    unfolding data by (simp add: iter_chunked.simps(2) Let_def del: take_Suc_Cons drop_Suc_Cons)
qed

lemma concat_iter_chunked: "concat (iter_chunked n avail data) = data"
proof (induction n avail data rule: iter_chunked.induct)
  case (1 n avail)
  then show ?case by simp
next
  case (2 n avail b bs)
  then show ?case
    by (simp add: iter_chunked.simps(2) Let_def del: take_Suc_Cons drop_Suc_Cons)
qed

lemma iter_chunked_sizes:
  "ch \<in> set (iter_chunked n avail data) \<Longrightarrow> 0 < length ch \<and> length ch \<le> max 1 n"
proof (induction n avail data rule: iter_chunked.induct)
  case (1 n avail)
  then show ?case by simp
next
  case (2 n avail b bs)
  then show ?case
    by (auto simp: iter_chunked.simps(2) Let_def simp del: take_Suc_Cons drop_Suc_Cons)
qed

lemma iter_chunked_full:
  "0 < n \<Longrightarrow> Suc i < length (iter_chunked n [] data)
     \<Longrightarrow> length (iter_chunked n [] data ! i) = n"
proof (induction n "[] :: nat list" data arbitrary: i rule: iter_chunked.induct)
  case (1 n)
  then show ?case by simp
next
  case (2 n b bs)
  let ?k = "max 1 (min n (length (b # bs)))"
  have unfold: "iter_chunked n [] (b # bs)
      = take ?k (b # bs) # iter_chunked n [] (drop ?k (b # bs))"
    by (simp add: iter_chunked.simps(2) Let_def del: take_Suc_Cons drop_Suc_Cons)
  have more: "drop ?k (b # bs) \<noteq> []"
    using "2.prems"(2) unfolding unfold by (auto simp del: take_Suc_Cons drop_Suc_Cons)
  then have k: "?k = n"
    using "2.prems"(1) by (auto simp: max_def min_def split: if_splits)
  show ?case
  proof (cases i)
    case 0
    then show ?thesis
      unfolding unfold using k more by (simp del: take_Suc_Cons drop_Suc_Cons)
  next
    case (Suc j)
    have "length (iter_chunked n [] (drop ?k (b # bs)) ! j) = n"
      using "2.prems" Suc unfolding unfold
      by (intro "2.hyps") (auto simp: max_def min_def simp del: take_Suc_Cons drop_Suc_Cons)
    then show ?thesis
      unfolding unfold using Suc by simp
  qed
qed

lemma write_chunks_unlimited: "write_chunks None chunks = (chunks, None)"
  by (induction chunks) auto

lemma py_int_examples:
  "py_int ''1000'' = Some 1000" "py_int ''5000000'' = Some 5000000"
  "py_int '' 42 '' = Some 42" "py_int ''-7'' = Some (- 7)" "py_int ''1_000'' = Some 1000"
  "py_int [CHR 0xA0, CHR ''5''] = Some 5"
  "py_int [CHR 0x1F, CHR ''5''] = None" "py_int ''abc'' = None" "py_int ''1__0'' = None"
  "py_int [] = None"
  by (simp_all add: py_int_def int_space_def int_digits_def is_digit_def
      digit_value_def decimal_def)

lemma iter_chunked_example:
  "iter_chunked 4 [] ''helloworld'' = [''hell'', ''owor'', ''ld'']"
  "iter_chunked 4 [3, 1] ''helloworld'' = [''hel'', ''l'', ''owor'', ''ld'']"
  by (simp_all add: iter_chunked.simps(2))

lemma iter_chunked_5000:
  "iter_chunked 4096 [] (replicate 5000 c) = [replicate 4096 c, replicate 904 c]"
proof -
  have "iter_chunked 4096 [] (replicate 5000 c)
      = replicate 4096 c # iter_chunked 4096 [] (replicate 904 c)"
    by (subst iter_chunked_step) simp_all
  also have "iter_chunked 4096 [] (replicate 904 c) = [replicate 904 c]"
    by (subst iter_chunked_step) simp_all
  finally show ?thesis .
qed

lemmas delivery_defs =
  handle_request_def deliver_def simple_request_def read_body_def web_Response_def
  response_header_def response_skipped_def example_sys_def example_result_def
  example_broken_def example_addon_def

text \<open>
  C5. Every backend response with a declared content length below 4,194,000 gives one
  fully buffered response, and every other one a streamed response whose chunks put
  together are the backend body. A body whose read breaks off gives no buffered
  response: the exception leaves \<^verbatim>\<open>_handle_request\<close> (the dispatcher turns it into
  \<open>HTTPBadGateway\<close>). A client that refuses the writes gets a streamed response
  without the body.
\<close>

theorem handle_request_delivery_counterexample:
  "fst (handle_request example_consts (example_sys example_broken) (example_request [])
          example_addon (Some ''index.html''))
     = Inl ClientPayloadError
   \<and> fst (handle_request example_consts (example_sys (example_result [] ''hello''))
            ((example_request []) \<lparr>req_write_limit := Some 0\<rparr>)
            example_addon (Some ''index.html''))
     = Inr (StreamResponse 200 [] ''text/plain'' [])"
proof -
  have init: "init_header example_consts ((example_request []) \<lparr>req_write_limit := w\<rparr>)
      = Inr [(''X-Forwarded-For'', ''None, 10.0.0.5'')]" for w
    by (simp add: example_defs)
  have "fst (handle_request example_consts (example_sys example_broken) (example_request [])
          example_addon (Some ''index.html''))
     = Inl ClientPayloadError"
    by (simp add: example_init_header delivery_defs py_int_examples hdrs_defs lower_examples)
  moreover have "fst (handle_request example_consts (example_sys (example_result [] ''hello''))
            ((example_request []) \<lparr>req_write_limit := Some 0\<rparr>)
            example_addon (Some ''index.html''))
     = Inr (StreamResponse 200 [] ''text/plain'' [])"
    by (simp add: init delivery_defs iter_chunked.simps(2))
  ultimately show ?thesis by (intro conjI)
qed

text \<open>
  C5, amended. Take a backend response whose body is read to the end without an
  exception. When it declares a content length that \<^verbatim>\<open>int\<close> accepts and that is below
  4,194,000, and \<^verbatim>\<open>web.Response\<close> accepts its content type beside the copied headers,
  the proxy returns one buffered response with the whole body. When it declares none,
  or one that \<^verbatim>\<open>int\<close> accepts and that is at or above 4,194,000, and the client accepts
  every write, the proxy returns a streamed response whose chunks, put together, are the
  backend body, each chunk of at most 4096 bytes and, when the body is fully buffered
  ahead of the reads, each chunk but the last of exactly 4096 bytes.
\<close>

theorem handle_request_delivery:
  assumes "init_header c request = Inr source_header"
      and "\<forall>call. websession_request sys call = Inr result"
      and "failure (content result) = None"
  shows "(\<forall>v n. multidict_get (resp_headers result) CONTENT_LENGTH = Some v
              \<and> py_int v = Some n \<and> n < 4194000
              \<and> \<not> substring ''charset'' (content_type result)
              \<and> multidict_get (response_header (resp_headers result)) CONTENT_TYPE = None \<longrightarrow>
            fst (handle_request c sys request addon path)
              = Inr (Response (response_header (resp_headers result)) (status result)
                       (content_type result) (readable (content result))))
       \<and> ((multidict_get (resp_headers result) CONTENT_LENGTH = None
             \<or> (\<exists>v n. multidict_get (resp_headers result) CONTENT_LENGTH = Some v
                   \<and> py_int v = Some n \<and> 4194000 \<le> n))
            \<and> req_write_limit request = None \<longrightarrow>
            (\<exists>chunks. fst (handle_request c sys request addon path)
                 = Inr (StreamResponse (status result) (response_header (resp_headers result))
                          (content_type result) chunks)
               \<and> concat chunks = readable (content result)
               \<and> (\<forall>ch \<in> set chunks. 0 < length ch \<and> length ch \<le> 4096)
               \<and> (buffered (content result) = [] \<longrightarrow>
                    (\<forall>i. Suc i < length chunks \<longrightarrow> length (chunks ! i) = 4096))))"
proof -
  let ?chunks = "iter_chunked 4096 (buffered (content result)) (readable (content result))"
  let ?headers = "response_header (resp_headers result)"
  have run: "fst (handle_request c sys request addon path) = deliver request result"
    using assms(1,2) by (simp add: handle_request_def Let_def)
  have buffered_branch: "deliver request result
      = Inr (Response ?headers (status result) (content_type result) (readable (content result)))"
    if "simple_request (resp_headers result) = Inr True"
      and "\<not> substring ''charset'' (content_type result)"
      and "multidict_get ?headers CONTENT_TYPE = None"
    using that assms(3) by (simp add: deliver_def read_body_def web_Response_def)
  have streamed_branch: "deliver request result
      = Inr (StreamResponse (status result) ?headers (content_type result) ?chunks)"
    if "simple_request (resp_headers result) = Inr False" and "req_write_limit request = None"
    using that assms(3) by (simp add: deliver_def write_chunks_unlimited)
  have sizes: "\<forall>ch \<in> set ?chunks. 0 < length ch \<and> length ch \<le> 4096"
    using iter_chunked_sizes [of _ 4096] by fastforce
  have full: "buffered (content result) = [] \<longrightarrow>
      (\<forall>i. Suc i < length ?chunks \<longrightarrow> length (?chunks ! i) = 4096)"
    using iter_chunked_full [of 4096] by simp
  show ?thesis
  proof (intro conjI allI impI)
    fix v n
    assume declared: "multidict_get (resp_headers result) CONTENT_LENGTH = Some v
              \<and> py_int v = Some n \<and> n < 4194000
              \<and> \<not> substring ''charset'' (content_type result)
              \<and> multidict_get ?headers CONTENT_TYPE = None"
    then have "simple_request (resp_headers result) = Inr True"
      by (simp add: simple_request_def)
    with declared show "fst (handle_request c sys request addon path)
      = Inr (Response ?headers (status result) (content_type result) (readable (content result)))"
      unfolding run by (intro buffered_branch) simp_all
  next
    assume undeclared: "(multidict_get (resp_headers result) CONTENT_LENGTH = None
            \<or> (\<exists>v n. multidict_get (resp_headers result) CONTENT_LENGTH = Some v
                  \<and> py_int v = Some n \<and> 4194000 \<le> n))
          \<and> req_write_limit request = None"
    then have "simple_request (resp_headers result) = Inr False"
      by (auto simp: simple_request_def)
    with undeclared have "fst (handle_request c sys request addon path)
      = Inr (StreamResponse (status result) ?headers (content_type result) ?chunks)"
      unfolding run by (intro streamed_branch) simp_all
    with sizes full concat_iter_chunked [of 4096 "buffered (content result)" "readable (content result)"]
    show "\<exists>chunks. fst (handle_request c sys request addon path)
                 = Inr (StreamResponse (status result) ?headers (content_type result) chunks)
               \<and> concat chunks = readable (content result)
               \<and> (\<forall>ch \<in> set chunks. 0 < length ch \<and> length ch \<le> 4096)
               \<and> (buffered (content result) = [] \<longrightarrow>
                    (\<forall>i. Suc i < length chunks \<longrightarrow> length (chunks ! i) = 4096))"
      by (intro exI [of _ ?chunks] conjI)
  qed
qed

theorem handle_request_delivery_witness:
  "init_header example_consts (example_request [])
     = Inr [(''X-Forwarded-For'', ''None, 10.0.0.5'')]
   \<and> multidict_get (resp_headers (example_result
          [(''Content-Length'', ''1000''), (''Server'', ''nginx'')] ''hello''))
        CONTENT_LENGTH = Some ''1000''
   \<and> py_int ''1000'' = Some 1000
   \<and> \<not> substring ''charset'' ''text/plain''
   \<and> fst (handle_request example_consts
             (example_sys (example_result
                [(''Content-Length'', ''1000''), (''Server'', ''nginx'')] ''hello''))
             (example_request []) example_addon (Some ''index.html''))
       = Inr (Response [(''Server'', ''nginx'')] 200 ''text/plain'' ''hello'')
   \<and> multidict_get (resp_headers (example_result [(''Content-Length'', ''5000000'')]
          (replicate 5000 (CHR ''a'')))) CONTENT_LENGTH = Some ''5000000''
   \<and> py_int ''5000000'' = Some 5000000
   \<and> req_write_limit (example_request []) = None
   \<and> (\<exists>chunks. fst (handle_request example_consts
                      (example_sys (example_result [(''Content-Length'', ''5000000'')]
                         (replicate 5000 (CHR ''a''))))
                      (example_request []) example_addon (Some ''index.html''))
                 = Inr (StreamResponse 200 [] ''text/plain'' chunks)
               \<and> concat chunks = replicate 5000 (CHR ''a'')
               \<and> (\<forall>ch \<in> set chunks. 0 < length ch \<and> length ch \<le> 4096)
               \<and> (\<forall>i. Suc i < length chunks \<longrightarrow> length (chunks ! i) = 4096))
   \<and> multidict_get (resp_headers (example_result [] ''hello'')) CONTENT_LENGTH = None
   \<and> (\<exists>chunks. fst (handle_request example_consts (example_sys (example_result [] ''hello''))
                      (example_request []) example_addon (Some ''index.html''))
                 = Inr (StreamResponse 200 [] ''text/plain'' chunks)
               \<and> concat chunks = ''hello'')"
proof -
  let ?small = "example_result [(''Content-Length'', ''1000''), (''Server'', ''nginx'')] ''hello''"
  let ?large = "example_result [(''Content-Length'', ''5000000'')] (replicate 5000 (CHR ''a''))"
  let ?plain = "example_result [] ''hello''"
  have answers: "\<forall>call. websession_request (example_sys r) call = Inr r" for r
    by (simp add: example_sys_def)
  have whole: "failure (content (example_result hs body)) = None" for hs body
    by (simp add: example_result_def)
  have accepts: "req_write_limit (example_request []) = None"
    by (simp add: example_request_def)
  have declared: "multidict_get (resp_headers ?small) CONTENT_LENGTH = Some ''1000''"
    by (simp add: example_result_def CONTENT_LENGTH_def)
  have declared_large: "multidict_get (resp_headers ?large) CONTENT_LENGTH = Some ''5000000''"
    by (simp add: example_result_def CONTENT_LENGTH_def)
  have absent: "multidict_get (resp_headers ?plain) CONTENT_LENGTH = None"
    by (simp add: example_result_def)
  have parsed: "py_int ''1000'' = Some 1000" and parsed_large: "py_int ''5000000'' = Some 5000000"
    by (rule py_int_examples)+
  have ctype: "\<not> substring ''charset'' ''text/plain''"
    by simp
  have copied: "response_header (resp_headers ?small) = [(''Server'', ''nginx'')]"
    by (simp add: example_result_def response_header_def response_skipped_def hdrs_defs)
  have untyped: "multidict_get (response_header (resp_headers ?small)) CONTENT_TYPE = None"
    unfolding copied by (simp add: CONTENT_TYPE_def lower_def lower_char_def capitals_def small_letters_def)
  have "fst (handle_request example_consts (example_sys ?small) (example_request [])
               example_addon (Some ''index.html''))
      = Inr (Response (response_header (resp_headers ?small)) (status ?small)
               (content_type ?small) (readable (content ?small)))"
    using handle_request_delivery [where result = ?small and addon = example_addon
        and path = "Some ''index.html''", OF example_init_header answers whole]
      declared parsed untyped
    by (simp add: example_result_def)
  then have small: "fst (handle_request example_consts (example_sys ?small) (example_request [])
               example_addon (Some ''index.html''))
      = Inr (Response [(''Server'', ''nginx'')] 200 ''text/plain'' ''hello'')"
    unfolding copied by (simp add: example_result_def)
  have "\<exists>chunks. fst (handle_request example_consts (example_sys ?large) (example_request [])
               example_addon (Some ''index.html''))
          = Inr (StreamResponse (status ?large) (response_header (resp_headers ?large))
                   (content_type ?large) chunks)
        \<and> concat chunks = readable (content ?large)
        \<and> (\<forall>ch \<in> set chunks. 0 < length ch \<and> length ch \<le> 4096)
        \<and> (buffered (content ?large) = [] \<longrightarrow>
             (\<forall>i. Suc i < length chunks \<longrightarrow> length (chunks ! i) = 4096))"
    using handle_request_delivery [where result = ?large and addon = example_addon
        and path = "Some ''index.html''", OF example_init_header answers whole]
      declared_large parsed_large accepts
    by simp
  then have large: "\<exists>chunks. fst (handle_request example_consts (example_sys ?large)
               (example_request []) example_addon (Some ''index.html''))
          = Inr (StreamResponse 200 [] ''text/plain'' chunks)
        \<and> concat chunks = replicate 5000 (CHR ''a'')
        \<and> (\<forall>ch \<in> set chunks. 0 < length ch \<and> length ch \<le> 4096)
        \<and> (\<forall>i. Suc i < length chunks \<longrightarrow> length (chunks ! i) = 4096)"
    by (simp add: example_result_def response_header_def response_skipped_def hdrs_defs)
  have "\<exists>chunks. fst (handle_request example_consts (example_sys ?plain) (example_request [])
               example_addon (Some ''index.html''))
          = Inr (StreamResponse (status ?plain) (response_header (resp_headers ?plain))
                   (content_type ?plain) chunks)
        \<and> concat chunks = readable (content ?plain)"
    using handle_request_delivery [where result = ?plain and addon = example_addon
        and path = "Some ''index.html''", OF example_init_header answers whole]
      absent accepts
    by auto
  then have streamed: "\<exists>chunks. fst (handle_request example_consts (example_sys ?plain)
               (example_request []) example_addon (Some ''index.html''))
          = Inr (StreamResponse 200 [] ''text/plain'' chunks)
        \<and> concat chunks = ''hello''"
    by (simp add: example_result_def response_header_def)
  show ?thesis
    by (intro conjI example_init_header declared parsed ctype small declared_large
        parsed_large accepts large absent streamed)
qed

lemma handle_request_streams_example:
  "fst (handle_request example_consts
          (example_sys (example_result [(''Content-Length'', ''5000000'')]
             (replicate 5000 (CHR ''a''))))
          (example_request []) example_addon (Some ''index.html''))
     = Inr (StreamResponse 200 [] ''text/plain''
              [replicate 4096 (CHR ''a''), replicate 904 (CHR ''a'')])"
proof -
  have init: "init_header example_consts (example_request [])
      = Inr [(''X-Forwarded-For'', ''None, 10.0.0.5'')]"
    by (rule example_init_header)
  have limit: "req_write_limit (example_request []) = None"
    by (simp add: example_request_def)
  show ?thesis
    by (simp add: init limit delivery_defs py_int_examples hdrs_defs lower_examples
        iter_chunked_5000 write_chunks_unlimited)
qed

section \<open>Properties of the WebSocket relay\<close>

lemmas relay_defs =
  websocket_forward_def forward_message_def ends_iteration_def frame_defs

text \<open>
  While no call raises, the calls of the loop are those of the loop body on the
  messages before the first one that ends the iteration.
\<close>

lemma forward_loop_calls:
  "\<forall>(msg, ws_to) \<in> set ws_from. to_raises ws_to = None \<Longrightarrow>
   fst (forward_loop ws_from ends)
     = List.map_filter (\<lambda>(msg, ws_to). forward_message msg ws_to)
         (takeWhile (\<lambda>(msg, ws_to). \<not> ends_iteration msg) ws_from)"
  by (induction ws_from) (auto simp: List.map_filter_simps split_beta split: option.splits)

lemma websocket_forward_calls:
  "\<forall>(msg, ws_to) \<in> set ws_from. to_raises ws_to = None \<Longrightarrow>
   fst (websocket_forward ws_from ends)
     = List.map_filter (\<lambda>(msg, ws_to). forward_message msg ws_to)
         (takeWhile (\<lambda>(msg, ws_to). \<not> ends_iteration msg) ws_from)"
  using forward_loop_calls [of ws_from ends]
  by (simp add: websocket_forward_def split_beta)

lemma map_filter_append:
  "List.map_filter f (xs @ ys) = List.map_filter f xs @ List.map_filter f ys"
  by (simp add: List.map_filter_def)

text \<open>
  C7. For every sequence of inbound frames each text, binary, ping and pong frame is
  forwarded, in order. The iteration over the source ends at its first close message,
  and a frame that follows it is not forwarded.
\<close>

theorem websocket_forward_translates_counterexample:
  "fst (websocket_forward
          [(frame CLOSE [] (Some ''bye''), open_destination),
           (frame TEXT ''hi'' (Some []), open_destination)] None)
     = []"
  by (simp add: relay_defs)

text \<open>
  C7, amended. In one direction of the relay, while no call on the destination raises,
  the frames sent are the text, binary, ping and pong frames received before the first
  message of type \<open>CLOSE\<close>, \<open>CLOSING\<close> or \<open>CLOSED\<close>, each translated to the call of its
  type (text and binary with the payload unchanged), in the order received.
\<close>

theorem websocket_forward_translates:
  assumes "\<forall>(msg, ws_to) \<in> set ws_from. to_raises ws_to = None"
  shows "filter (\<lambda>call. \<not> is_close call) (fst (websocket_forward ws_from ends))
           = map relayed_as
               (filter is_data_frame
                  (takeWhile (\<lambda>msg. \<not> ends_iteration msg) (map fst ws_from)))"
proof -
  have "filter (\<lambda>call. \<not> is_close call)
          (List.map_filter (\<lambda>(msg, ws_to). forward_message msg ws_to)
             (takeWhile (\<lambda>(msg, ws_to). \<not> ends_iteration msg) ws))
        = map relayed_as
            (filter is_data_frame (takeWhile (\<lambda>msg. \<not> ends_iteration msg) (map fst ws)))"
    for ws
  proof (induction ws)
    case Nil
    then show ?case by (simp add: List.map_filter_simps)
  next
    case (Cons p ws)
    obtain msg ws_to where p: "p = (msg, ws_to)" by (cases p)
    show ?case
      using Cons unfolding p
      by (cases "msg_type msg")
        (simp_all add: List.map_filter_simps forward_message_def is_data_frame_def
          ends_iteration_def)
  qed
  with websocket_forward_calls [OF assms] show ?thesis by simp
qed

theorem websocket_forward_translates_witness:
  "to_raises open_destination = None
   \<and> filter (\<lambda>call. \<not> is_close call)
        (fst (websocket_forward
           [(frame TEXT ''hi'' (Some []), open_destination),
            (frame PING [] (Some []), open_destination),
            (frame BINARY ''xy'' (Some []), open_destination),
            (frame ERROR [] None, closed_destination),
            (frame PONG [] (Some []), open_destination),
            (frame CLOSE [] (Some ''bye''), open_destination),
            (frame TEXT ''late'' (Some []), open_destination)]
           None))
      = [SendStr ''hi'', Ping, SendBytes ''xy'', Pong]"
proof -
  let ?frames = "[(frame TEXT ''hi'' (Some []), open_destination),
            (frame PING [] (Some []), open_destination),
            (frame BINARY ''xy'' (Some []), open_destination),
            (frame ERROR [] None, closed_destination),
            (frame PONG [] (Some []), open_destination),
            (frame CLOSE [] (Some ''bye''), open_destination),
            (frame TEXT ''late'' (Some []), open_destination)]"
  have quiet: "\<forall>(msg, ws_to) \<in> set ?frames. to_raises ws_to = None"
    by (simp add: frame_defs)
  have "map relayed_as
          (filter is_data_frame (takeWhile (\<lambda>msg. \<not> ends_iteration msg) (map fst ?frames)))
      = [SendStr ''hi'', Ping, SendBytes ''xy'', Pong]"
    by (simp add: frame_defs is_data_frame_def ends_iteration_def)
  with websocket_forward_translates [OF quiet, of None] show ?thesis
    by (simp add: open_destination_def)
qed

text \<open>
  C10. A close frame received from the source is forwarded as a close call with the
  destination's close code and the frame's payload when the destination is already
  closed. The iteration ends at the close frame before the loop body sees it: with
  the destination closed no call is made either.
\<close>

theorem websocket_forward_close_frame_counterexample:
  "to_closed closed_destination
   \<and> websocket_forward [(frame CLOSE [] (Some ''bye''), closed_destination)] None = ([], None)"
  by (simp add: relay_defs)

text \<open>
  C10, amended. A close frame received from the source ends the forwarding loop and
  nothing is sent to the destination for it, whether the destination is already closed
  or still open: the task does what it does on the frames before the close frame, and
  ends normally.
\<close>

theorem websocket_forward_close_frame:
  assumes "msg_type msg = CLOSE"
  shows "websocket_forward (before @ (msg, ws_to) # after) ends = websocket_forward before None"
proof -
  have "forward_loop (before @ (msg, ws_to) # after) ends = forward_loop before None"
    using assms
    by (induction before)
      (auto simp: ends_iteration_def split: option.splits prod.splits)
  then show ?thesis
    by (simp add: websocket_forward_def)
qed

theorem websocket_forward_close_frame_witness:
  "msg_type (frame CLOSE [] (Some ''bye'')) = CLOSE
   \<and> websocket_forward
        [(frame TEXT ''hi'' (Some []), open_destination),
         (frame CLOSE [] (Some ''bye''), closed_destination),
         (frame PING [] (Some []), open_destination)] None
      = ([SendStr ''hi''], None)
   \<and> websocket_forward
        [(frame TEXT ''hi'' (Some []), open_destination),
         (frame CLOSE [] (Some ''bye''), open_destination),
         (frame PING [] (Some []), open_destination)] None
      = ([SendStr ''hi''], None)"
proof -
  let ?before = "[(frame TEXT ''hi'' (Some []), open_destination)]"
  let ?after = "[(frame PING [] (Some []), open_destination)]"
  have close: "msg_type (frame CLOSE [] (Some ''bye'')) = CLOSE"
    by (simp add: frame_def)
  have before: "websocket_forward ?before None = ([SendStr ''hi''], None)"
    by (simp add: relay_defs)
  have closed: "websocket_forward (?before @ (frame CLOSE [] (Some ''bye''), closed_destination) # ?after) None
      = ([SendStr ''hi''], None)"
    using websocket_forward_close_frame [OF close, of ?before closed_destination ?after None]
    by (simp only: before)
  have opened: "websocket_forward (?before @ (frame CLOSE [] (Some ''bye''), open_destination) # ?after) None
      = ([SendStr ''hi''], None)"
    using websocket_forward_close_frame [OF close, of ?before open_destination ?after None]
    by (simp only: before)
  from closed opened close show ?thesis by simp
qed

text \<open>
  The last branch of the loop body is reached by a message that is none of text,
  binary, ping, pong and the three close types: it calls \<open>close\<close> with the
  destination's close code and the message's \<open>extra\<close> when the destination is closed,
  and nothing otherwise.
\<close>

lemma websocket_forward_other_message:
  assumes "msg_type msg = ERROR \<or> msg_type msg = CONTINUATION"
      and "to_raises ws_to = None"
  shows "fst (websocket_forward [(msg, ws_to)] ends)
           = (if to_closed ws_to then [Close (to_close_code ws_to) (msg_extra msg)] else [])"
  using assms by (auto simp: websocket_forward_def forward_message_def ends_iteration_def)

end
